theory Spec2Isabelle
  imports Main "HOL-Library.Word"
begin

section \<open>The consensus state machine of state/machine.go\<close>

subsection \<open>Blocks, votes, polkas and commits\<close>

text \<open>
  Modelled from the spec: the package block (Height, Round, SignedBlock, PreVote, Polka,
  PreCommit, Commit and their signed forms) is declared outside state/machine.go. The
  spec's data model gives Height and Round as non-negative integers, a block as a payload
  with a Height field, a PreVote as (block or nil, height, round), a Polka as (block or
  nil, height, round, evidence) and a Commit as (polka, evidence). A field that the
  machine leaves out of a struct literal has Go's zero value: nil for the block, the
  empty list for the evidence.

  Go's integers have a fixed width, so Height and Round are 64-bit words read as unsigned:
  \<open>+\<close> wraps around (the largest value, \<open>- 1\<close>, plus one is \<open>0\<close>), as
  \<open>machine.round++\<close> and \<open>commit.Polka.Height + 1\<close> do, and \<open><\<close> compares the
  unsigned values.
\<close>

type_synonym Height = "64 word"
type_synonym Round = "64 word"
type_synonym Signatory = nat

record SignedBlock =
  block_Height :: Height
  block_Header :: nat
  block_Signatory :: Signatory

record block_PreVote =
  prevote_Block :: "SignedBlock option"
  prevote_Height :: Height
  prevote_Round :: Round

record SignedPreVote =
  spv_PreVote :: block_PreVote
  spv_Signatory :: Signatory

record block_Polka =
  polka_Block :: "SignedBlock option"
  polka_Round :: Round
  polka_Height :: Height
  polka_Signatories :: "Signatory list"

record block_PreCommit =
  precommit_Polka :: block_Polka

record SignedPreCommit =
  spc_PreCommit :: block_PreCommit
  spc_Signatory :: Signatory

record block_Commit =
  commit_Polka :: block_Polka
  commit_Signatories :: "Signatory list"

subsection \<open>The builders\<close>

text \<open>
  Modelled from the spec: block.PolkaBuilder and block.CommitBuilder are declared outside
  state/machine.go, so their operations are parameters of the machine. Insert reports
  whether the vote was new and gives the builder after the insertion; Polka and Commit are
  read-only queries at a height and a threshold that give an optional polka (commit) and an
  optional round. The builders never fail. Nothing else is assumed of them.
\<close>

record ('pb, 'cb) builders =
  polkaBuilder_Insert :: "SignedPreVote \<Rightarrow> 'pb \<Rightarrow> bool \<times> 'pb"
  polkaBuilder_Polka :: "'pb \<Rightarrow> Height \<Rightarrow> int \<Rightarrow> block_Polka option \<times> Round option"
  commitBuilder_Insert :: "SignedPreCommit \<Rightarrow> 'cb \<Rightarrow> bool \<times> 'cb"
  commitBuilder_Commit :: "'cb \<Rightarrow> Height \<Rightarrow> int \<Rightarrow> block_Commit option \<times> Round option"

subsection \<open>States, transitions, actions\<close>

text \<open>
  State, Transition and Action are Go interfaces that the machine inspects with type
  switches. The variants are the cases of those switches; \<open>UnknownState\<close> and
  \<open>UnknownTransition\<close> stand for every other value of the interface (nil included), which
  is what the \<open>default\<close> branches receive. An absent action (Go's nil) is \<open>None\<close>.
\<close>

datatype State = WaitingForPropose | WaitingForPolka | WaitingForCommit | UnknownState

datatype Transition =
    Proposed "SignedBlock option"
  | PreVoted SignedPreVote
  | PreCommitted SignedPreCommit
  | TimedOut
  | UnknownTransition

datatype Action =
    PreVote block_PreVote
  | PreCommit block_PreCommit
  | Commit block_Commit

datatype panic =
    ExpectedLockedBlockNil
  | ExpectedLockedRoundNil
  | UnexpectedStateType
  | UnexpectedTransitionType

record ('pb, 'cb) machine =
  state :: State
  height :: Height
  round_m :: Round
  lockedRound :: "Round option"
  lockedBlock :: "SignedBlock option"
  polkaBuilder :: 'pb
  commitBuilder :: 'cb
  consensusThreshold :: int

definition NewMachine :: "State \<Rightarrow> 'pb \<Rightarrow> 'cb \<Rightarrow> int \<Rightarrow> ('pb, 'cb) machine" where
  "NewMachine st pb cb threshold =
     \<lparr>state = st, height = 0, round_m = 0, lockedRound = None, lockedBlock = None,
      polkaBuilder = pb, commitBuilder = cb, consensusThreshold = threshold\<rparr>"

definition queryPolka ::
  "('pb, 'cb) builders \<Rightarrow> ('pb, 'cb) machine \<Rightarrow> block_Polka option \<times> Round option" where
  "queryPolka B m = polkaBuilder_Polka B (polkaBuilder m) (height m) (consensusThreshold m)"

definition queryCommit ::
  "('pb, 'cb) builders \<Rightarrow> ('pb, 'cb) machine \<Rightarrow> block_Commit option \<times> Round option" where
  "queryCommit B m = commitBuilder_Commit B (commitBuilder m) (height m) (consensusThreshold m)"

definition insertPreVote ::
  "('pb, 'cb) builders \<Rightarrow> ('pb, 'cb) machine \<Rightarrow> SignedPreVote \<Rightarrow> bool \<times> ('pb, 'cb) machine" where
  "insertPreVote B m v =
     (case polkaBuilder_Insert B v (polkaBuilder m) of
        (isNew, pb) \<Rightarrow> (isNew, m\<lparr>polkaBuilder := pb\<rparr>))"

definition insertPreCommit ::
  "('pb, 'cb) builders \<Rightarrow> ('pb, 'cb) machine \<Rightarrow> SignedPreCommit \<Rightarrow> bool \<times> ('pb, 'cb) machine" where
  "insertPreCommit B m v =
     (case commitBuilder_Insert B v (commitBuilder m) of
        (isNew, cb) \<Rightarrow> (isNew, m\<lparr>commitBuilder := cb\<rparr>))"

subsection \<open>preVote and preCommit\<close>

definition unlocks :: "('pb, 'cb) builders \<Rightarrow> ('pb, 'cb) machine \<Rightarrow> bool" where
  "unlocks B m =
     (case (lockedRound m, fst (queryPolka B m)) of
        (Some lr, Some polka) \<Rightarrow> lr < polka_Round polka
      | _ \<Rightarrow> False)"

definition preVote ::
  "('pb, 'cb) builders \<Rightarrow> ('pb, 'cb) machine \<Rightarrow> SignedBlock option
     \<Rightarrow> ('pb, 'cb) machine \<times> Action option" where
  "preVote B m proposedBlock =
     (let m1 = (if unlocks B m then m\<lparr>lockedRound := None, lockedBlock := None\<rparr> else m)
      in if lockedRound m1 \<noteq> None then
           (m1, Some (PreVote \<lparr>prevote_Block = lockedBlock m1,
                               prevote_Height = height m1, prevote_Round = round_m m1\<rparr>))
         else
           (case proposedBlock of
              Some pb \<Rightarrow>
                if block_Height pb = height m1 then
                  (m1, Some (PreVote \<lparr>prevote_Block = Some pb,
                                      prevote_Height = height m1, prevote_Round = round_m m1\<rparr>))
                else
                  (m1, Some (PreVote \<lparr>prevote_Block = None,
                                      prevote_Height = height m1, prevote_Round = round_m m1\<rparr>))
            | None \<Rightarrow>
                (m1, Some (PreVote \<lparr>prevote_Block = None,
                                    prevote_Height = height m1, prevote_Round = round_m m1\<rparr>))))"

definition emptyPolka :: "Height \<Rightarrow> Round \<Rightarrow> block_Polka" where
  "emptyPolka h r =
     \<lparr>polka_Block = None, polka_Round = r, polka_Height = h, polka_Signatories = []\<rparr>"

definition preCommit ::
  "('pb, 'cb) builders \<Rightarrow> ('pb, 'cb) machine \<Rightarrow> ('pb, 'cb) machine \<times> Action option" where
  "preCommit B m =
     (case fst (queryPolka B m) of
        Some polka \<Rightarrow>
          (case polka_Block polka of
             Some b \<Rightarrow>
               (m\<lparr>lockedRound := Some (polka_Round polka), lockedBlock := Some b\<rparr>,
                Some (PreCommit \<lparr>precommit_Polka = polka\<rparr>))
           | None \<Rightarrow>
               (m\<lparr>lockedRound := None, lockedBlock := None\<rparr>,
                Some (PreCommit \<lparr>precommit_Polka = polka\<rparr>)))
      | None \<Rightarrow>
          (m, Some (PreCommit \<lparr>precommit_Polka = emptyPolka (height m) (round_m m)\<rparr>)))"

subsection \<open>The common exit conditions\<close>

definition blockCommit :: "block_Commit option \<Rightarrow> block_Commit option" where
  "blockCommit c =
     (case c of
        Some commit \<Rightarrow> if polka_Block (commit_Polka commit) \<noteq> None then Some commit else None
      | None \<Rightarrow> None)"

definition laterRound :: "Round option \<Rightarrow> Round \<Rightarrow> Round option" where
  "laterRound r current =
     (case r of Some r' \<Rightarrow> if current < r' then Some r' else None | None \<Rightarrow> None)"

definition checkCommonExitConditions ::
  "('pb, 'cb) builders \<Rightarrow> ('pb, 'cb) machine \<Rightarrow> ('pb, 'cb) machine \<times> Action option" where
  "checkCommonExitConditions B m =
     (case queryCommit B m of (commit, preCommittingRound) \<Rightarrow>
        (case blockCommit commit of
           Some c \<Rightarrow>
             (m\<lparr>state := WaitingForPropose,
                height := polka_Height (commit_Polka c) + 1,
                round_m := 0, lockedBlock := None, lockedRound := None\<rparr>,
              Some (Commit c))
         | None \<Rightarrow>
             (case laterRound (snd (queryPolka B m)) (round_m m) of
                Some preVotingRound \<Rightarrow> preVote B (m\<lparr>round_m := preVotingRound\<rparr>) None
              | None \<Rightarrow>
                  (case laterRound preCommittingRound (round_m m) of
                     Some r \<Rightarrow> preCommit B (m\<lparr>state := WaitingForCommit, round_m := r\<rparr>)
                   | None \<Rightarrow> (m, None)))))"

subsection \<open>The three states\<close>

fun waitForPropose ::
  "('pb, 'cb) builders \<Rightarrow> ('pb, 'cb) machine \<Rightarrow> Transition
     \<Rightarrow> panic + ('pb, 'cb) machine \<times> Action option" where
  "waitForPropose B m (Proposed sb) = Inr (preVote B (m\<lparr>state := WaitingForPolka\<rparr>) sb)"
| "waitForPropose B m (PreVoted v) =
     Inr (checkCommonExitConditions B (snd (insertPreVote B m v)))"
| "waitForPropose B m (PreCommitted v) =
     Inr (checkCommonExitConditions B (snd (insertPreCommit B m v)))"
| "waitForPropose B m TimedOut = Inr (preVote B (m\<lparr>state := WaitingForPolka\<rparr>) None)"
| "waitForPropose B m UnknownTransition = Inl UnexpectedTransitionType"

definition polkaAtRound :: "block_Polka option \<Rightarrow> Round \<Rightarrow> bool" where
  "polkaAtRound p r = (case p of Some polka \<Rightarrow> polka_Round polka = r | None \<Rightarrow> False)"

fun waitForPolka ::
  "('pb, 'cb) builders \<Rightarrow> ('pb, 'cb) machine \<Rightarrow> Transition
     \<Rightarrow> panic + ('pb, 'cb) machine \<times> Action option" where
  "waitForPolka B m (Proposed sb) = Inr (checkCommonExitConditions B m)"
| "waitForPolka B m (PreVoted v) =
     (case insertPreVote B m v of
        (isNew, m1) \<Rightarrow>
          if \<not> isNew then Inr (m1, None)
          else if polkaAtRound (fst (queryPolka B m1)) (round_m m1) then
            Inr (preCommit B (m1\<lparr>state := WaitingForCommit\<rparr>))
          else Inr (checkCommonExitConditions B m1))"
| "waitForPolka B m (PreCommitted v) =
     (case insertPreCommit B m v of
        (isNew, m1) \<Rightarrow>
          if \<not> isNew then Inr (m1, None)
          else Inr (checkCommonExitConditions B m1))"
| "waitForPolka B m TimedOut =
     (case snd (queryPolka B m) of
        None \<Rightarrow> Inr (m, None)
      | Some preVotingRound \<Rightarrow> Inr (preCommit B (m\<lparr>state := WaitingForCommit\<rparr>)))"
| "waitForPolka B m UnknownTransition = Inl UnexpectedTransitionType"

definition nilCommitAtRound :: "block_Commit option \<Rightarrow> Round \<Rightarrow> bool" where
  "nilCommitAtRound c r =
     (case c of
        Some commit \<Rightarrow>
          polka_Block (commit_Polka commit) = None \<and> polka_Round (commit_Polka commit) = r
      | None \<Rightarrow> False)"

definition advanceRound ::
  "('pb, 'cb) machine \<Rightarrow> ('pb, 'cb) machine \<times> Action option" where
  "advanceRound m =
     (let m1 = m\<lparr>state := WaitingForPropose\<rparr>;
          m2 = m1\<lparr>round_m := round_m m1 + 1\<rparr>
      in (m2, Some (Commit \<lparr>commit_Polka = emptyPolka (height m2) (round_m m2),
                             commit_Signatories = []\<rparr>)))"

fun waitForCommit ::
  "('pb, 'cb) builders \<Rightarrow> ('pb, 'cb) machine \<Rightarrow> Transition
     \<Rightarrow> panic + ('pb, 'cb) machine \<times> Action option" where
  "waitForCommit B m (Proposed sb) = Inr (checkCommonExitConditions B m)"
| "waitForCommit B m (PreVoted v) =
     Inr (checkCommonExitConditions B (snd (insertPreVote B m v)))"
| "waitForCommit B m (PreCommitted v) =
     (case insertPreCommit B m v of
        (isNew, m1) \<Rightarrow>
          if \<not> isNew then Inr (m1, None)
          else if nilCommitAtRound (fst (queryCommit B m1)) (round_m m1) then
            Inr (advanceRound m1)
          else Inr (checkCommonExitConditions B m1))"
| "waitForCommit B m TimedOut =
     (case snd (queryCommit B m) of
        None \<Rightarrow> Inr (m, None)
      | Some preCommittingRound \<Rightarrow> Inr (advanceRound m))"
| "waitForCommit B m UnknownTransition = Inl UnexpectedTransitionType"

subsection \<open>Transition\<close>

definition Transition_m ::
  "('pb, 'cb) builders \<Rightarrow> ('pb, 'cb) machine \<Rightarrow> Transition
     \<Rightarrow> panic + ('pb, 'cb) machine \<times> Action option" where
  "Transition_m B m t =
     (if lockedRound m = None \<and> lockedBlock m \<noteq> None then Inl ExpectedLockedBlockNil
      else if lockedRound m \<noteq> None \<and> lockedBlock m = None then Inl ExpectedLockedRoundNil
      else
        (case state m of
           WaitingForPropose \<Rightarrow> waitForPropose B m t
         | WaitingForPolka \<Rightarrow> waitForPolka B m t
         | WaitingForCommit \<Rightarrow> waitForCommit B m t
         | UnknownState \<Rightarrow> Inl UnexpectedStateType))"

text \<open>
  A run of the machine: the transitions are applied one after the other, each to the
  machine the previous one left, and the run stops at the first panic.
\<close>

fun transitions ::
  "('pb, 'cb) builders \<Rightarrow> ('pb, 'cb) machine \<Rightarrow> Transition list
     \<Rightarrow> panic + ('pb, 'cb) machine \<times> Action option list" where
  "transitions B m [] = Inr (m, [])"
| "transitions B m (t # ts) =
     (case Transition_m B m t of
        Inl e \<Rightarrow> Inl e
      | Inr (m1, a) \<Rightarrow>
          (case transitions B m1 ts of
             Inl e \<Rightarrow> Inl e
           | Inr (m2, as) \<Rightarrow> Inr (m2, a # as)))"

definition lockCoupled :: "('pb, 'cb) machine \<Rightarrow> bool" where
  "lockCoupled m = ((lockedRound m = None) = (lockedBlock m = None))"

subsection \<open>Position of a machine\<close>

text \<open>
  \<open>notBefore m m'\<close>: the machine \<open>m'\<close> is not at an earlier (height, round) than \<open>m\<close>,
  and its round is smaller only where its height is greater and its round is 0.
\<close>

definition notBefore :: "('pb, 'cb) machine \<Rightarrow> ('pb, 'cb) machine \<Rightarrow> bool" where
  "notBefore m m' =
     (height m \<le> height m' \<and>
      (height m' = height m \<longrightarrow> round_m m \<le> round_m m') \<and>
      (round_m m' < round_m m \<longrightarrow> height m < height m' \<and> round_m m' = 0))"

subsection \<open>Scripted builders\<close>

text \<open>
  Concrete instances need concrete builders. A scripted builder is a test double: its state
  is the script of what it answers (whether the next vote counts as new, the block and
  round of the polka or commit it has found, the round it reports), and the polka or
  commit it gives carries the height it was asked for.
\<close>

record scriptedPolkas =
  isNewPreVote :: bool
  polkaFound :: "(SignedBlock option \<times> Round) option"
  preVotingRound :: "Round option"

record scriptedCommits =
  isNewPreCommit :: bool
  commitFound :: "(SignedBlock option \<times> Round) option"
  preCommittingRound :: "Round option"

definition polkaAt :: "Height \<Rightarrow> SignedBlock option \<times> Round \<Rightarrow> block_Polka" where
  "polkaAt h br =
     \<lparr>polka_Block = fst br, polka_Round = snd br, polka_Height = h, polka_Signatories = []\<rparr>"

definition commitAt :: "Height \<Rightarrow> SignedBlock option \<times> Round \<Rightarrow> block_Commit" where
  "commitAt h br = \<lparr>commit_Polka = polkaAt h br, commit_Signatories = []\<rparr>"

definition scripted :: "(scriptedPolkas, scriptedCommits) builders" where
  "scripted =
     \<lparr>polkaBuilder_Insert = (\<lambda>v pb. (isNewPreVote pb, pb)),
      polkaBuilder_Polka = (\<lambda>pb h n. (map_option (polkaAt h) (polkaFound pb), preVotingRound pb)),
      commitBuilder_Insert = (\<lambda>v cb. (isNewPreCommit cb, cb)),
      commitBuilder_Commit =
        (\<lambda>cb h n. (map_option (commitAt h) (commitFound cb), preCommittingRound cb))\<rparr>"

definition blockB :: "Height \<Rightarrow> SignedBlock" where
  "blockB h = \<lparr>block_Height = h, block_Header = 11, block_Signatory = 1\<rparr>"

section \<open>Properties\<close>

lemmas eval_defs = scripted_def polkaAt_def commitAt_def blockB_def NewMachine_def
  queryPolka_def queryCommit_def insertPreVote_def insertPreCommit_def

subsection \<open>Lock coupling is preserved\<close>

lemma Transition_m_dispatch:
  "lockCoupled m \<Longrightarrow> Transition_m B m t =
     (case state m of
        WaitingForPropose \<Rightarrow> waitForPropose B m t
      | WaitingForPolka \<Rightarrow> waitForPolka B m t
      | WaitingForCommit \<Rightarrow> waitForCommit B m t
      | UnknownState \<Rightarrow> Inl UnexpectedStateType)"
  by (auto simp: Transition_m_def lockCoupled_def)

lemma preVote_lockCoupled: "lockCoupled m \<Longrightarrow> lockCoupled (fst (preVote B m pb))"
  by (simp add: preVote_def lockCoupled_def Let_def split: option.splits)

lemma preCommit_lockCoupled: "lockCoupled m \<Longrightarrow> lockCoupled (fst (preCommit B m))"
  by (simp add: preCommit_def lockCoupled_def split: option.splits)

lemma checkCommon_lockCoupled:
  assumes "lockCoupled m"
  shows "lockCoupled (fst (checkCommonExitConditions B m))"
proof -
  have skip: "\<And>r. lockCoupled (m\<lparr>round_m := r\<rparr>)"
    using assms by (simp add: lockCoupled_def)
  have jump: "\<And>r. lockCoupled (m\<lparr>state := WaitingForCommit, round_m := r\<rparr>)"
    using assms by (simp add: lockCoupled_def)
  have committed: "\<And>h. lockCoupled (m\<lparr>state := WaitingForPropose, height := h, round_m := 0,
                                  lockedBlock := None, lockedRound := None\<rparr>)"
    by (simp add: lockCoupled_def)
  show ?thesis
    using assms
    by (simp add: checkCommonExitConditions_def preVote_lockCoupled [OF skip]
        preCommit_lockCoupled [OF jump] committed split: prod.splits option.splits)
qed

lemma insertPreVote_lock:
  "lockCoupled (snd (insertPreVote B m v)) = lockCoupled m"
  by (simp add: insertPreVote_def lockCoupled_def split: prod.splits)

lemma insertPreCommit_lock:
  "lockCoupled (snd (insertPreCommit B m v)) = lockCoupled m"
  by (simp add: insertPreCommit_def lockCoupled_def split: prod.splits)

lemma advanceRound_lockCoupled: "lockCoupled m \<Longrightarrow> lockCoupled (fst (advanceRound m))"
  by (simp add: advanceRound_def lockCoupled_def Let_def)

lemma waitForPropose_lockCoupled:
  assumes "lockCoupled m" and "waitForPropose B m t = Inr (m', a)"
  shows "lockCoupled m'"
proof -
  have st: "lockCoupled (m\<lparr>state := WaitingForPolka\<rparr>)"
    using assms(1) by (simp add: lockCoupled_def)
  show ?thesis
  proof (cases t)
    case (Proposed sb)
    with assms(2) preVote_lockCoupled [OF st, of B sb] show ?thesis by auto
  next
    case (PreVoted v)
    with assms checkCommon_lockCoupled [of "snd (insertPreVote B m v)" B] show ?thesis
      by (auto simp: insertPreVote_lock)
  next
    case (PreCommitted v)
    with assms checkCommon_lockCoupled [of "snd (insertPreCommit B m v)" B] show ?thesis
      by (auto simp: insertPreCommit_lock)
  next
    case TimedOut
    with assms(2) preVote_lockCoupled [OF st, of B None] show ?thesis by auto
  next
    case UnknownTransition
    with assms(2) show ?thesis by simp
  qed
qed

lemma waitForPolka_lockCoupled:
  assumes "lockCoupled m" and "waitForPolka B m t = Inr (m', a)"
  shows "lockCoupled m'"
proof -
  have st: "\<And>x. lockCoupled x \<Longrightarrow> lockCoupled (x\<lparr>state := WaitingForCommit\<rparr>)"
    by (simp add: lockCoupled_def)
  show ?thesis
  proof (cases t)
    case (Proposed sb)
    with assms checkCommon_lockCoupled [of m B] show ?thesis by auto
  next
    case (PreVoted v)
    obtain isNew m1 where ins: "insertPreVote B m v = (isNew, m1)"
      by (cases "insertPreVote B m v")
    with assms(1) insertPreVote_lock [of B m v] have m1: "lockCoupled m1" by simp
    from PreVoted assms(2) ins m1 checkCommon_lockCoupled [OF m1, of B]
      preCommit_lockCoupled [OF st [OF m1], of B]
    show ?thesis by (auto split: if_splits)
  next
    case (PreCommitted v)
    obtain isNew m1 where ins: "insertPreCommit B m v = (isNew, m1)"
      by (cases "insertPreCommit B m v")
    with assms(1) insertPreCommit_lock [of B m v] have m1: "lockCoupled m1" by simp
    from PreCommitted assms(2) ins m1 checkCommon_lockCoupled [OF m1, of B]
    show ?thesis by (auto split: if_splits)
  next
    case TimedOut
    with assms preCommit_lockCoupled [OF st [OF assms(1)], of B] show ?thesis
      by (auto split: option.splits)
  next
    case UnknownTransition
    with assms(2) show ?thesis by simp
  qed
qed

lemma waitForCommit_lockCoupled:
  assumes "lockCoupled m" and "waitForCommit B m t = Inr (m', a)"
  shows "lockCoupled m'"
proof (cases t)
  case (Proposed sb)
  with assms checkCommon_lockCoupled [of m B] show ?thesis by auto
next
  case (PreVoted v)
  with assms checkCommon_lockCoupled [of "snd (insertPreVote B m v)" B] show ?thesis
    by (auto simp: insertPreVote_lock)
next
  case (PreCommitted v)
  obtain isNew m1 where ins: "insertPreCommit B m v = (isNew, m1)"
    by (cases "insertPreCommit B m v")
  with assms(1) insertPreCommit_lock [of B m v] have m1: "lockCoupled m1" by simp
  from PreCommitted assms(2) ins m1 checkCommon_lockCoupled [OF m1, of B]
    advanceRound_lockCoupled [OF m1]
  show ?thesis by (auto split: if_splits)
next
  case TimedOut
  with assms advanceRound_lockCoupled [OF assms(1)] show ?thesis
    by (auto split: option.splits)
next
  case UnknownTransition
  with assms(2) show ?thesis by simp
qed

lemma Transition_lockCoupled:
  assumes "Transition_m B m t = Inr (m', a)"
  shows "lockCoupled m \<and> lockCoupled m'"
proof -
  from assms have pre: "lockCoupled m"
    by (auto simp: Transition_m_def lockCoupled_def split: if_splits)
  from assms pre show ?thesis
    by (auto simp: Transition_m_def split: if_splits State.splits
        dest: waitForPropose_lockCoupled waitForPolka_lockCoupled waitForCommit_lockCoupled)
qed

text \<open>
  Claim C4 (lock coupling, I1 and P1). Start from any machine in which lockedRound is set
  exactly when lockedBlock is set, and apply any sequence of transitions to it. If the run
  does not panic, then in the machine it leaves lockedRound is set if and only if
  lockedBlock is set. Every prefix of a run is a run, so this holds after each call.
\<close>

theorem lock_coupling_invariant:
  "lockCoupled m \<Longrightarrow> transitions B m ts = Inr (m', as) \<Longrightarrow> lockCoupled m'"
proof (induction ts arbitrary: m as)
  case Nil
  then show ?case by simp
next
  case (Cons t ts)
  from Cons.prems(2) obtain m1 a as1
    where step: "Transition_m B m t = Inr (m1, a)"
      and rest: "transitions B m1 ts = Inr (m', as1)"
    by (auto split: sum.splits prod.splits)
  from Transition_lockCoupled [OF step] have "lockCoupled m1" by simp
  from Cons.IH [OF this rest] show ?case .
qed

theorem lock_coupling_invariant_witness:
  "lockCoupled (NewMachine WaitingForPropose
         \<lparr>isNewPreVote = True, polkaFound = Some (Some (blockB 0), 0), preVotingRound = Some 0\<rparr>
         \<lparr>isNewPreCommit = True, commitFound = None, preCommittingRound = None\<rparr> 3) \<and>
   (\<exists>m' as. transitions scripted (NewMachine WaitingForPropose
         \<lparr>isNewPreVote = True, polkaFound = Some (Some (blockB 0), 0), preVotingRound = Some 0\<rparr>
         \<lparr>isNewPreCommit = True, commitFound = None, preCommittingRound = None\<rparr> 3)
        [Proposed (Some (blockB 0)), PreVoted \<lparr>spv_PreVote = \<lparr>prevote_Block = Some (blockB 0), prevote_Height = 0, prevote_Round = 0\<rparr>, spv_Signatory = 2\<rparr>]
      = Inr (m', as) \<and> lockedRound m' = Some 0 \<and> lockedBlock m' = Some (blockB 0) \<and> lockCoupled m')"
proof -
  let ?m = "NewMachine WaitingForPropose
         \<lparr>isNewPreVote = True, polkaFound = Some (Some (blockB 0), 0), preVotingRound = Some 0\<rparr>
         \<lparr>isNewPreCommit = True, commitFound = None, preCommittingRound = None\<rparr> 3"
  let ?ts = "[Proposed (Some (blockB 0)), PreVoted \<lparr>spv_PreVote = \<lparr>prevote_Block = Some (blockB 0), prevote_Height = 0, prevote_Round = 0\<rparr>, spv_Signatory = 2\<rparr>]"
  have h: "lockCoupled ?m" by (simp add: lockCoupled_def NewMachine_def)
  obtain m' as where run: "transitions scripted ?m ?ts = Inr (m', as)"
     and lk: "lockedRound m' = Some 0" "lockedBlock m' = Some (blockB 0)"
    by (simp add: eval_defs Transition_m_def preVote_def unlocks_def preCommit_def polkaAtRound_def)
  from lock_coupling_invariant [OF h run] h run lk show ?thesis by blast
qed

subsection \<open>The common exit: committing a block\<close>

text \<open>
  Claim C1. When the commit builder, asked at the machine's height, gives a commit whose
  polka has a block and is at the machine's height, checkCommonExitConditions sets the
  state to WaitingForPropose, the height to height + 1 and the round to 0, clears
  lockedRound and lockedBlock, changes nothing else, and returns the Commit action with
  that commit. Nothing is assumed of the polka builder or of the round the commit builder
  reports: the commit is looked at before the round skips, whatever they would do.
\<close>

theorem checkCommonExitConditions_commit:
  assumes "fst (queryCommit B m) = Some c"
    and "polka_Block (commit_Polka c) \<noteq> None"
    and "polka_Height (commit_Polka c) = height m"
  shows "checkCommonExitConditions B m =
           (m\<lparr>state := WaitingForPropose, height := height m + 1, round_m := 0,
              lockedBlock := None, lockedRound := None\<rparr>,
            Some (Commit c))"
  using assms
  by (cases "queryCommit B m") (simp add: checkCommonExitConditions_def blockCommit_def)

theorem checkCommonExitConditions_commit_witness:
  "checkCommonExitConditions scripted
     ((NewMachine WaitingForCommit
         \<lparr>isNewPreVote = True, polkaFound = None, preVotingRound = Some 5\<rparr>
         \<lparr>isNewPreCommit = True, commitFound = Some (Some (blockB 0), 2),
          preCommittingRound = Some 4\<rparr> 3)
        \<lparr>round_m := 2, lockedRound := Some 1, lockedBlock := Some (blockB 0)\<rparr>)
   = (NewMachine WaitingForPropose
         \<lparr>isNewPreVote = True, polkaFound = None, preVotingRound = Some 5\<rparr>
         \<lparr>isNewPreCommit = True, commitFound = Some (Some (blockB 0), 2),
          preCommittingRound = Some 4\<rparr> 3
        \<lparr>height := 1\<rparr>,
      Some (Commit (commitAt 0 (Some (blockB 0), 2))))"
proof -
  let ?m = "(NewMachine WaitingForCommit
         \<lparr>isNewPreVote = True, polkaFound = None, preVotingRound = Some 5\<rparr>
         \<lparr>isNewPreCommit = True, commitFound = Some (Some (blockB 0), 2),
          preCommittingRound = Some 4\<rparr> 3)
        \<lparr>round_m := 2, lockedRound := Some 1, lockedBlock := Some (blockB 0)\<rparr>"
  let ?c = "commitAt 0 (Some (blockB 0), 2)"
  have h1: "fst (queryCommit scripted ?m) = Some ?c"
    by (simp add: eval_defs)
  have h2: "polka_Block (commit_Polka ?c) \<noteq> None"
    by (simp add: eval_defs)
  have h3: "polka_Height (commit_Polka ?c) = height ?m"
    by (simp add: eval_defs)
  show ?thesis
    using checkCommonExitConditions_commit [OF h1 h2 h3] by (simp add: NewMachine_def)
qed

subsection \<open>preVote and preCommit\<close>

text \<open>
  Claim C2. preVote first clears lockedRound and lockedBlock when lockedRound is set and
  the polka builder gives a polka at the machine's height whose round is greater than
  lockedRound, and otherwise leaves the machine as it is. If the machine is still locked
  after that, the action is a PreVote for lockedBlock; otherwise, if a proposed block was
  given and its height is the machine's height, a PreVote for that block; otherwise a
  PreVote for nil. In every case the PreVote carries the machine's height and round.
\<close>

theorem preVote_emits:
  "preVote B m proposedBlock = (m', a) \<Longrightarrow>
     ((\<exists>lr p. lockedRound m = Some lr \<and> fst (queryPolka B m) = Some p \<and> lr < polka_Round p)
        \<longrightarrow> m' = m\<lparr>lockedRound := None, lockedBlock := None\<rparr>) \<and>
     (\<not> (\<exists>lr p. lockedRound m = Some lr \<and> fst (queryPolka B m) = Some p \<and> lr < polka_Round p)
        \<longrightarrow> m' = m) \<and>
     (lockedRound m' \<noteq> None \<longrightarrow>
        a = Some (PreVote \<lparr>prevote_Block = lockedBlock m', prevote_Height = height m,
                            prevote_Round = round_m m\<rparr>)) \<and>
     (lockedRound m' = None \<longrightarrow>
        (\<forall>b. proposedBlock = Some b \<and> block_Height b = height m \<longrightarrow>
           a = Some (PreVote \<lparr>prevote_Block = Some b, prevote_Height = height m,
                               prevote_Round = round_m m\<rparr>)) \<and>
        (\<not> (\<exists>b. proposedBlock = Some b \<and> block_Height b = height m) \<longrightarrow>
           a = Some (PreVote \<lparr>prevote_Block = None, prevote_Height = height m,
                               prevote_Round = round_m m\<rparr>)))"
  by (auto simp: preVote_def unlocks_def Let_def split: option.splits if_splits)

theorem preVote_emits_witness:
  "preVote scripted
     ((NewMachine WaitingForPolka
         \<lparr>isNewPreVote = True, polkaFound = Some (None, 2), preVotingRound = Some 2\<rparr>
         \<lparr>isNewPreCommit = True, commitFound = None, preCommittingRound = None\<rparr> 3)
        \<lparr>round_m := 3, lockedRound := Some 1, lockedBlock := Some (blockB 0)\<rparr>)
     (Some (blockB 0\<lparr>block_Header := 12\<rparr>))
   = ((NewMachine WaitingForPolka
         \<lparr>isNewPreVote = True, polkaFound = Some (None, 2), preVotingRound = Some 2\<rparr>
         \<lparr>isNewPreCommit = True, commitFound = None, preCommittingRound = None\<rparr> 3)
        \<lparr>round_m := 3\<rparr>,
      Some (PreVote \<lparr>prevote_Block = Some (blockB 0\<lparr>block_Header := 12\<rparr>),
                      prevote_Height = 0, prevote_Round = 3\<rparr>)) \<and>
   preVote scripted
     ((NewMachine WaitingForPolka
         \<lparr>isNewPreVote = True, polkaFound = Some (None, 1), preVotingRound = Some 1\<rparr>
         \<lparr>isNewPreCommit = True, commitFound = None, preCommittingRound = None\<rparr> 3)
        \<lparr>round_m := 3, lockedRound := Some 1, lockedBlock := Some (blockB 0)\<rparr>)
     (Some (blockB 0\<lparr>block_Header := 12\<rparr>))
   = ((NewMachine WaitingForPolka
         \<lparr>isNewPreVote = True, polkaFound = Some (None, 1), preVotingRound = Some 1\<rparr>
         \<lparr>isNewPreCommit = True, commitFound = None, preCommittingRound = None\<rparr> 3)
        \<lparr>round_m := 3, lockedRound := Some 1, lockedBlock := Some (blockB 0)\<rparr>,
      Some (PreVote \<lparr>prevote_Block = Some (blockB 0),
                      prevote_Height = 0, prevote_Round = 3\<rparr>)) \<and>
   preVote scripted
     (NewMachine WaitingForPolka
         \<lparr>isNewPreVote = True, polkaFound = None, preVotingRound = None\<rparr>
         \<lparr>isNewPreCommit = True, commitFound = None, preCommittingRound = None\<rparr> 3)
     (Some (blockB 1))
   = (NewMachine WaitingForPolka
         \<lparr>isNewPreVote = True, polkaFound = None, preVotingRound = None\<rparr>
         \<lparr>isNewPreCommit = True, commitFound = None, preCommittingRound = None\<rparr> 3,
      Some (PreVote \<lparr>prevote_Block = None, prevote_Height = 0, prevote_Round = 0\<rparr>))"
proof -
  let ?pbA = "\<lparr>isNewPreVote = True, polkaFound = Some (None, 2), preVotingRound = Some 2\<rparr>"
  let ?pbB = "\<lparr>isNewPreVote = True, polkaFound = Some (None, 1), preVotingRound = Some 1\<rparr>"
  let ?pbC = "\<lparr>isNewPreVote = True, polkaFound = None, preVotingRound = None\<rparr>"
  let ?cb = "\<lparr>isNewPreCommit = True, commitFound = None, preCommittingRound = None\<rparr>"
  let ?mA = "(NewMachine WaitingForPolka ?pbA ?cb 3)
               \<lparr>round_m := 3, lockedRound := Some 1, lockedBlock := Some (blockB 0)\<rparr>"
  let ?mB = "(NewMachine WaitingForPolka ?pbB ?cb 3)
               \<lparr>round_m := 3, lockedRound := Some 1, lockedBlock := Some (blockB 0)\<rparr>"
  let ?mC = "NewMachine WaitingForPolka ?pbC ?cb 3"
  let ?p = "Some (blockB 0\<lparr>block_Header := 12\<rparr>)"
  have a: "preVote scripted ?mA ?p = (fst (preVote scripted ?mA ?p), snd (preVote scripted ?mA ?p))"
    by simp
  have b: "preVote scripted ?mB ?p = (fst (preVote scripted ?mB ?p), snd (preVote scripted ?mB ?p))"
    by simp
  have c: "preVote scripted ?mC (Some (blockB 1))
             = (fst (preVote scripted ?mC (Some (blockB 1))),
                snd (preVote scripted ?mC (Some (blockB 1))))"
    by simp
  have 1: "preVote scripted ?mA ?p =
     ((NewMachine WaitingForPolka ?pbA ?cb 3)\<lparr>round_m := 3\<rparr>,
      Some (PreVote \<lparr>prevote_Block = ?p, prevote_Height = 0, prevote_Round = 3\<rparr>))"
    using preVote_emits [OF a] by (simp add: eval_defs prod_eq_iff)
  have 2: "preVote scripted ?mB ?p =
     (?mB, Some (PreVote \<lparr>prevote_Block = Some (blockB 0), prevote_Height = 0,
                          prevote_Round = 3\<rparr>))"
    using preVote_emits [OF b] by (simp add: eval_defs prod_eq_iff)
  have 3: "preVote scripted ?mC (Some (blockB 1)) =
     (?mC, Some (PreVote \<lparr>prevote_Block = None, prevote_Height = 0, prevote_Round = 0\<rparr>))"
    using preVote_emits [OF c] by (simp add: eval_defs prod_eq_iff)
  from 1 2 3 show ?thesis by simp
qed

text \<open>
  Claim C3. preCommit asks the polka builder for the highest polka at the machine's height.
  If that polka has a block, the machine locks on the polka's round and block and the
  action is a PreCommit of the polka. If it has no block, lockedRound and lockedBlock are
  cleared and the action is a PreCommit of the polka. If there is no polka, the machine is
  unchanged and the action is a PreCommit of an empty polka at the machine's height and
  round.
\<close>

theorem preCommit_emits:
  "(\<forall>p b. fst (queryPolka B m) = Some p \<and> polka_Block p = Some b \<longrightarrow>
      preCommit B m = (m\<lparr>lockedRound := Some (polka_Round p), lockedBlock := Some b\<rparr>,
                       Some (PreCommit \<lparr>precommit_Polka = p\<rparr>))) \<and>
   (\<forall>p. fst (queryPolka B m) = Some p \<and> polka_Block p = None \<longrightarrow>
      preCommit B m = (m\<lparr>lockedRound := None, lockedBlock := None\<rparr>,
                       Some (PreCommit \<lparr>precommit_Polka = p\<rparr>))) \<and>
   (fst (queryPolka B m) = None \<longrightarrow>
      preCommit B m =
        (m, Some (PreCommit \<lparr>precommit_Polka =
                    \<lparr>polka_Block = None, polka_Round = round_m m, polka_Height = height m,
                     polka_Signatories = []\<rparr>\<rparr>)))"
  by (simp add: preCommit_def emptyPolka_def)

theorem preCommit_emits_witness:
  "preCommit scripted
     (NewMachine WaitingForCommit
         \<lparr>isNewPreVote = True, polkaFound = Some (Some (blockB 0), 0), preVotingRound = Some 0\<rparr>
         \<lparr>isNewPreCommit = True, commitFound = None, preCommittingRound = None\<rparr> 3)
   = ((NewMachine WaitingForCommit
         \<lparr>isNewPreVote = True, polkaFound = Some (Some (blockB 0), 0), preVotingRound = Some 0\<rparr>
         \<lparr>isNewPreCommit = True, commitFound = None, preCommittingRound = None\<rparr> 3)
        \<lparr>lockedRound := Some 0, lockedBlock := Some (blockB 0)\<rparr>,
      Some (PreCommit \<lparr>precommit_Polka = polkaAt 0 (Some (blockB 0), 0)\<rparr>)) \<and>
   preCommit scripted
     ((NewMachine WaitingForCommit
         \<lparr>isNewPreVote = True, polkaFound = Some (None, 1), preVotingRound = Some 1\<rparr>
         \<lparr>isNewPreCommit = True, commitFound = None, preCommittingRound = None\<rparr> 3)
        \<lparr>round_m := 1, lockedRound := Some 0, lockedBlock := Some (blockB 0)\<rparr>)
   = ((NewMachine WaitingForCommit
         \<lparr>isNewPreVote = True, polkaFound = Some (None, 1), preVotingRound = Some 1\<rparr>
         \<lparr>isNewPreCommit = True, commitFound = None, preCommittingRound = None\<rparr> 3)
        \<lparr>round_m := 1\<rparr>,
      Some (PreCommit \<lparr>precommit_Polka = polkaAt 0 (None, 1)\<rparr>)) \<and>
   preCommit scripted
     ((NewMachine WaitingForCommit
         \<lparr>isNewPreVote = True, polkaFound = None, preVotingRound = Some 1\<rparr>
         \<lparr>isNewPreCommit = True, commitFound = None, preCommittingRound = None\<rparr> 3)
        \<lparr>round_m := 1, lockedRound := Some 0, lockedBlock := Some (blockB 0)\<rparr>)
   = ((NewMachine WaitingForCommit
         \<lparr>isNewPreVote = True, polkaFound = None, preVotingRound = Some 1\<rparr>
         \<lparr>isNewPreCommit = True, commitFound = None, preCommittingRound = None\<rparr> 3)
        \<lparr>round_m := 1, lockedRound := Some 0, lockedBlock := Some (blockB 0)\<rparr>,
      Some (PreCommit \<lparr>precommit_Polka = polkaAt 0 (None, 1)\<rparr>))"
proof -
  let ?cb = "\<lparr>isNewPreCommit = True, commitFound = None, preCommittingRound = None\<rparr>"
  let ?mA = "NewMachine WaitingForCommit
         \<lparr>isNewPreVote = True, polkaFound = Some (Some (blockB 0), 0), preVotingRound = Some 0\<rparr>
         ?cb 3"
  let ?mB = "(NewMachine WaitingForCommit
         \<lparr>isNewPreVote = True, polkaFound = Some (None, 1), preVotingRound = Some 1\<rparr> ?cb 3)
        \<lparr>round_m := 1, lockedRound := Some 0, lockedBlock := Some (blockB 0)\<rparr>"
  let ?mC = "(NewMachine WaitingForCommit
         \<lparr>isNewPreVote = True, polkaFound = None, preVotingRound = Some 1\<rparr> ?cb 3)
        \<lparr>round_m := 1, lockedRound := Some 0, lockedBlock := Some (blockB 0)\<rparr>"
  have 1: "fst (queryPolka scripted ?mA) = Some (polkaAt 0 (Some (blockB 0), 0)) \<and>
           polka_Block (polkaAt 0 (Some (blockB 0), 0)) = Some (blockB 0)"
    by (simp add: eval_defs)
  have 2: "fst (queryPolka scripted ?mB) = Some (polkaAt 0 (None, 1)) \<and>
           polka_Block (polkaAt 0 (None, 1)) = None"
    by (simp add: eval_defs)
  have 3: "fst (queryPolka scripted ?mC) = None"
    by (simp add: eval_defs)
  from preCommit_emits [of scripted ?mA] 1
  have r1: "preCommit scripted ?mA =
      (?mA\<lparr>lockedRound := Some (polka_Round (polkaAt 0 (Some (blockB 0), 0))),
            lockedBlock := Some (blockB 0)\<rparr>,
       Some (PreCommit \<lparr>precommit_Polka = polkaAt 0 (Some (blockB 0), 0)\<rparr>))"
    by blast
  from preCommit_emits [of scripted ?mB] 2
  have r2: "preCommit scripted ?mB =
      (?mB\<lparr>lockedRound := None, lockedBlock := None\<rparr>,
       Some (PreCommit \<lparr>precommit_Polka = polkaAt 0 (None, 1)\<rparr>))"
    by blast
  from preCommit_emits [of scripted ?mC] 3
  have r3: "preCommit scripted ?mC =
      (?mC, Some (PreCommit \<lparr>precommit_Polka =
                    \<lparr>polka_Block = None, polka_Round = round_m ?mC, polka_Height = height ?mC,
                     polka_Signatories = []\<rparr>\<rparr>))"
    by blast
  show ?thesis
    unfolding r1 r2 r3 by (simp add: NewMachine_def polkaAt_def)
qed

subsection \<open>Advancing the round in WaitingForCommit\<close>

text \<open>
  Claim C5. In WaitingForCommit, when a new precommit is inserted and the commit builder
  then gives a commit with no block at the machine's round, or when the machine times out
  and the commit builder reports some round with enough precommits, Transition returns a
  Commit action whose polka has the machine's height, no block and the round old round + 1;
  the machine is then in WaitingForPropose at the same height and at round old round + 1,
  with its lock as it was.
\<close>

theorem waitForCommit_round_advance:
  assumes "state m = WaitingForCommit" and "lockCoupled m"
    and "(\<exists>v m1 c. t = PreCommitted v \<and> insertPreCommit B m v = (True, m1) \<and>
             fst (queryCommit B m1) = Some c \<and> polka_Block (commit_Polka c) = None \<and>
             polka_Round (commit_Polka c) = round_m m)
         \<or> (t = TimedOut \<and> snd (queryCommit B m) \<noteq> None)"
  shows "\<exists>m'. Transition_m B m t =
            Inr (m', Some (Commit \<lparr>commit_Polka =
                                     \<lparr>polka_Block = None, polka_Round = round_m m + 1,
                                      polka_Height = height m, polka_Signatories = []\<rparr>,
                                   commit_Signatories = []\<rparr>)) \<and>
          state m' = WaitingForPropose \<and> height m' = height m \<and>
          round_m m' = round_m m + 1 \<and>
          lockedRound m' = lockedRound m \<and> lockedBlock m' = lockedBlock m"
  using assms(3)
proof
  assume "\<exists>v m1 c. t = PreCommitted v \<and> insertPreCommit B m v = (True, m1) \<and>
             fst (queryCommit B m1) = Some c \<and> polka_Block (commit_Polka c) = None \<and>
             polka_Round (commit_Polka c) = round_m m"
  then obtain v m1 c where t: "t = PreCommitted v"
    and ins: "insertPreCommit B m v = (True, m1)"
    and c: "fst (queryCommit B m1) = Some c" "polka_Block (commit_Polka c) = None"
       "polka_Round (commit_Polka c) = round_m m"
    by blast
  from ins have m1: "m1 = m\<lparr>commitBuilder := commitBuilder m1\<rparr>"
    by (auto simp: insertPreCommit_def split: prod.splits)
  have same: "round_m m1 = round_m m" "height m1 = height m"
    "lockedRound m1 = lockedRound m" "lockedBlock m1 = lockedBlock m"
    by (subst m1, simp)+
  from c same have nil: "nilCommitAtRound (fst (queryCommit B m1)) (round_m m1)"
    by (simp add: nilCommitAtRound_def)
  show ?thesis
    using assms(1,2) t ins nil same
    by (simp add: Transition_m_dispatch advanceRound_def emptyPolka_def Let_def)
next
  assume "t = TimedOut \<and> snd (queryCommit B m) \<noteq> None"
  then show ?thesis
    using assms(1,2)
    by (auto simp: Transition_m_dispatch advanceRound_def emptyPolka_def Let_def)
qed

theorem waitForCommit_round_advance_witness:
  "Transition_m scripted
     ((NewMachine WaitingForCommit
         \<lparr>isNewPreVote = True, polkaFound = Some (None, 2), preVotingRound = Some 2\<rparr>
         \<lparr>isNewPreCommit = True, commitFound = Some (None, 2), preCommittingRound = Some 2\<rparr> 3)
        \<lparr>round_m := 2\<rparr>)
     (PreCommitted \<lparr>spc_PreCommit = \<lparr>precommit_Polka = polkaAt 0 (None, 2)\<rparr>,
                    spc_Signatory = 4\<rparr>)
   = Inr ((NewMachine WaitingForPropose
             \<lparr>isNewPreVote = True, polkaFound = Some (None, 2), preVotingRound = Some 2\<rparr>
             \<lparr>isNewPreCommit = True, commitFound = Some (None, 2),
              preCommittingRound = Some 2\<rparr> 3)
            \<lparr>round_m := 3\<rparr>,
          Some (Commit (commitAt 0 (None, 3)))) \<and>
   Transition_m scripted
     ((NewMachine WaitingForCommit
         \<lparr>isNewPreVote = True, polkaFound = None, preVotingRound = None\<rparr>
         \<lparr>isNewPreCommit = True, commitFound = None, preCommittingRound = Some 0\<rparr> 3)
        \<lparr>height := 7, round_m := 1\<rparr>)
     TimedOut
   = Inr ((NewMachine WaitingForPropose
             \<lparr>isNewPreVote = True, polkaFound = None, preVotingRound = None\<rparr>
             \<lparr>isNewPreCommit = True, commitFound = None, preCommittingRound = Some 0\<rparr> 3)
            \<lparr>height := 7, round_m := 2\<rparr>,
          Some (Commit (commitAt 7 (None, 2))))"
proof -
  let ?pa = "\<lparr>isNewPreVote = True, polkaFound = Some (None, 2), preVotingRound = Some 2\<rparr>"
  let ?ca = "\<lparr>isNewPreCommit = True, commitFound = Some (None, 2),
              preCommittingRound = Some 2\<rparr>"
  let ?ma = "(NewMachine WaitingForCommit ?pa ?ca 3)\<lparr>round_m := 2\<rparr>"
  let ?v = "\<lparr>spc_PreCommit = \<lparr>precommit_Polka = polkaAt 0 (None, 2)\<rparr>, spc_Signatory = 4\<rparr>"
  let ?pz = "\<lparr>isNewPreVote = True, polkaFound = None, preVotingRound = None\<rparr>"
  let ?cz = "\<lparr>isNewPreCommit = True, commitFound = None, preCommittingRound = Some 0\<rparr>"
  let ?mz = "(NewMachine WaitingForCommit ?pz ?cz 3)\<lparr>height := 7, round_m := 1\<rparr>"
  have a1: "state ?ma = WaitingForCommit" by (simp add: NewMachine_def)
  have a2: "lockCoupled ?ma" by (simp add: NewMachine_def lockCoupled_def)
  have a3: "(\<exists>v m1 c. PreCommitted ?v = PreCommitted v \<and>
               insertPreCommit scripted ?ma v = (True, m1) \<and>
               fst (queryCommit scripted m1) = Some c \<and>
               polka_Block (commit_Polka c) = None \<and>
               polka_Round (commit_Polka c) = round_m ?ma)
            \<or> (PreCommitted ?v = TimedOut \<and> snd (queryCommit scripted ?ma) \<noteq> None)"
    by (simp add: eval_defs)
  have z1: "state ?mz = WaitingForCommit" by (simp add: NewMachine_def)
  have z2: "lockCoupled ?mz" by (simp add: NewMachine_def lockCoupled_def)
  have z3: "(\<exists>v m1 c. TimedOut = PreCommitted v \<and>
               insertPreCommit scripted ?mz v = (True, m1) \<and>
               fst (queryCommit scripted m1) = Some c \<and>
               polka_Block (commit_Polka c) = None \<and>
               polka_Round (commit_Polka c) = round_m ?mz)
            \<or> (TimedOut = TimedOut \<and> snd (queryCommit scripted ?mz) \<noteq> None)"
    by (simp add: eval_defs)
  from waitForCommit_round_advance [OF a1 a2 a3]
  obtain ma' where ra: "Transition_m scripted ?ma (PreCommitted ?v) =
        Inr (ma', Some (Commit \<lparr>commit_Polka =
                                   \<lparr>polka_Block = None, polka_Round = round_m ?ma + 1,
                                    polka_Height = height ?ma, polka_Signatories = []\<rparr>,
                                 commit_Signatories = []\<rparr>))"
    by blast
  from waitForCommit_round_advance [OF z1 z2 z3]
  obtain mz' where rz: "Transition_m scripted ?mz TimedOut =
        Inr (mz', Some (Commit \<lparr>commit_Polka =
                                   \<lparr>polka_Block = None, polka_Round = round_m ?mz + 1,
                                    polka_Height = height ?mz, polka_Signatories = []\<rparr>,
                                 commit_Signatories = []\<rparr>))"
    by blast
  have ea: "ma' = (NewMachine WaitingForPropose ?pa ?ca 3)\<lparr>round_m := 3\<rparr>"
    using ra
    by (auto simp: eval_defs Transition_m_def nilCommitAtRound_def advanceRound_def Let_def)
  have ez: "mz' = (NewMachine WaitingForPropose ?pz ?cz 3)\<lparr>height := 7, round_m := 2\<rparr>"
    using rz
    by (auto simp: eval_defs Transition_m_def advanceRound_def Let_def)
  show ?thesis
    unfolding ra rz ea ez by (simp add: eval_defs)
qed

subsection \<open>A prevote in WaitingForPolka\<close>

text \<open>
  Claim C6, as amended. In WaitingForPolka, a PreVoted transition inserts the vote into the
  polka builder. If the vote was not new, Transition returns no action and the machine
  differs from the old one in the polka builder only: the common exit checks are not run.
  If the vote was new and the polka builder gives no polka at the machine's round,
  Transition returns what checkCommonExitConditions returns on the machine after the
  insertion.
\<close>

theorem waitForPolka_prevoted:
  assumes "state m = WaitingForPolka" and "lockCoupled m"
    and "insertPreVote B m v = (isNew, m1)"
  shows "(\<not> isNew \<longrightarrow> Transition_m B m (PreVoted v) = Inr (m1, None)) \<and>
         (isNew \<and> \<not> (\<exists>p. fst (queryPolka B m1) = Some p \<and> polka_Round p = round_m m) \<longrightarrow>
            Transition_m B m (PreVoted v) = Inr (checkCommonExitConditions B m1))"
proof -
  from assms(3) have "round_m m1 = round_m m"
    by (auto simp: insertPreVote_def split: prod.splits)
  then show ?thesis
    using assms
    by (auto simp: Transition_m_dispatch polkaAtRound_def split: option.splits)
qed

theorem waitForPolka_prevoted_witness:
  "Transition_m scripted
     (NewMachine WaitingForPolka
         \<lparr>isNewPreVote = False, polkaFound = None, preVotingRound = Some 1\<rparr>
         \<lparr>isNewPreCommit = True, commitFound = None, preCommittingRound = None\<rparr> 3)
     (PreVoted \<lparr>spv_PreVote = \<lparr>prevote_Block = None, prevote_Height = 0, prevote_Round = 1\<rparr>,
                spv_Signatory = 2\<rparr>)
   = Inr (NewMachine WaitingForPolka
            \<lparr>isNewPreVote = False, polkaFound = None, preVotingRound = Some 1\<rparr>
            \<lparr>isNewPreCommit = True, commitFound = None, preCommittingRound = None\<rparr> 3,
          None) \<and>
   Transition_m scripted
     (NewMachine WaitingForPolka
         \<lparr>isNewPreVote = True, polkaFound = None, preVotingRound = Some 1\<rparr>
         \<lparr>isNewPreCommit = True, commitFound = None, preCommittingRound = None\<rparr> 3)
     (PreVoted \<lparr>spv_PreVote = \<lparr>prevote_Block = None, prevote_Height = 0, prevote_Round = 1\<rparr>,
                spv_Signatory = 2\<rparr>)
   = Inr (checkCommonExitConditions scripted
           (NewMachine WaitingForPolka
             \<lparr>isNewPreVote = True, polkaFound = None, preVotingRound = Some 1\<rparr>
             \<lparr>isNewPreCommit = True, commitFound = None, preCommittingRound = None\<rparr> 3))"
proof -
  let ?pd = "\<lparr>isNewPreVote = False, polkaFound = None, preVotingRound = Some 1\<rparr>"
  let ?pn = "\<lparr>isNewPreVote = True, polkaFound = None, preVotingRound = Some 1\<rparr>"
  let ?cz = "\<lparr>isNewPreCommit = True, commitFound = None, preCommittingRound = None\<rparr>"
  let ?md = "NewMachine WaitingForPolka ?pd ?cz 3"
  let ?mn = "NewMachine WaitingForPolka ?pn ?cz 3"
  let ?v = "\<lparr>spv_PreVote = \<lparr>prevote_Block = None, prevote_Height = 0, prevote_Round = 1\<rparr>,
            spv_Signatory = 2\<rparr>"
  have d1: "state ?md = WaitingForPolka" by (simp add: NewMachine_def)
  have d2: "lockCoupled ?md" by (simp add: NewMachine_def lockCoupled_def)
  have d3: "insertPreVote scripted ?md ?v = (False, ?md)" by (simp add: eval_defs)
  have n1: "state ?mn = WaitingForPolka" by (simp add: NewMachine_def)
  have n2: "lockCoupled ?mn" by (simp add: NewMachine_def lockCoupled_def)
  have n3: "insertPreVote scripted ?mn ?v = (True, ?mn)" by (simp add: eval_defs)
  have n4: "\<not> (\<exists>p. fst (queryPolka scripted ?mn) = Some p \<and> polka_Round p = round_m ?mn)"
    by (simp add: eval_defs)
  from waitForPolka_prevoted [OF d1 d2 d3] waitForPolka_prevoted [OF n1 n2 n3] n4
  show ?thesis by blast
qed

text \<open>
  Claim C6 as stated fails for a vote that was not new. The machine below waits for a
  polka at height 0 and round 0 while its commit builder already holds a commit for a block
  at height 0. A duplicate prevote leaves it where it is and gives no action, although the
  common exit checks on the same machine would commit the block and move to height 1.
\<close>

theorem waitForPolka_duplicate_counterexample:
  "state (NewMachine WaitingForPolka
            \<lparr>isNewPreVote = False, polkaFound = None, preVotingRound = None\<rparr>
            \<lparr>isNewPreCommit = False, commitFound = Some (Some (blockB 0), 0),
             preCommittingRound = Some 0\<rparr> 3) = WaitingForPolka \<and>
   fst (insertPreVote scripted
          (NewMachine WaitingForPolka
            \<lparr>isNewPreVote = False, polkaFound = None, preVotingRound = None\<rparr>
            \<lparr>isNewPreCommit = False, commitFound = Some (Some (blockB 0), 0),
             preCommittingRound = Some 0\<rparr> 3)
          \<lparr>spv_PreVote = \<lparr>prevote_Block = Some (blockB 0), prevote_Height = 0,
                           prevote_Round = 0\<rparr>, spv_Signatory = 2\<rparr>) = False \<and>
   Transition_m scripted
     (NewMachine WaitingForPolka
        \<lparr>isNewPreVote = False, polkaFound = None, preVotingRound = None\<rparr>
        \<lparr>isNewPreCommit = False, commitFound = Some (Some (blockB 0), 0),
         preCommittingRound = Some 0\<rparr> 3)
     (PreVoted \<lparr>spv_PreVote = \<lparr>prevote_Block = Some (blockB 0), prevote_Height = 0,
                                prevote_Round = 0\<rparr>, spv_Signatory = 2\<rparr>)
   = Inr (NewMachine WaitingForPolka
            \<lparr>isNewPreVote = False, polkaFound = None, preVotingRound = None\<rparr>
            \<lparr>isNewPreCommit = False, commitFound = Some (Some (blockB 0), 0),
             preCommittingRound = Some 0\<rparr> 3,
          None) \<and>
   checkCommonExitConditions scripted
     (snd (insertPreVote scripted
          (NewMachine WaitingForPolka
            \<lparr>isNewPreVote = False, polkaFound = None, preVotingRound = None\<rparr>
            \<lparr>isNewPreCommit = False, commitFound = Some (Some (blockB 0), 0),
             preCommittingRound = Some 0\<rparr> 3)
          \<lparr>spv_PreVote = \<lparr>prevote_Block = Some (blockB 0), prevote_Height = 0,
                           prevote_Round = 0\<rparr>, spv_Signatory = 2\<rparr>))
   = ((NewMachine WaitingForPropose
            \<lparr>isNewPreVote = False, polkaFound = None, preVotingRound = None\<rparr>
            \<lparr>isNewPreCommit = False, commitFound = Some (Some (blockB 0), 0),
             preCommittingRound = Some 0\<rparr> 3)\<lparr>height := 1\<rparr>,
      Some (Commit (commitAt 0 (Some (blockB 0), 0)))) \<and>
   Transition_m scripted
     (NewMachine WaitingForPolka
        \<lparr>isNewPreVote = False, polkaFound = None, preVotingRound = None\<rparr>
        \<lparr>isNewPreCommit = False, commitFound = Some (Some (blockB 0), 0),
         preCommittingRound = Some 0\<rparr> 3)
     (PreVoted \<lparr>spv_PreVote = \<lparr>prevote_Block = Some (blockB 0), prevote_Height = 0,
                                prevote_Round = 0\<rparr>, spv_Signatory = 2\<rparr>)
   \<noteq> Inr (checkCommonExitConditions scripted
           (snd (insertPreVote scripted
              (NewMachine WaitingForPolka
                \<lparr>isNewPreVote = False, polkaFound = None, preVotingRound = None\<rparr>
                \<lparr>isNewPreCommit = False, commitFound = Some (Some (blockB 0), 0),
                 preCommittingRound = Some 0\<rparr> 3)
              \<lparr>spv_PreVote = \<lparr>prevote_Block = Some (blockB 0), prevote_Height = 0,
                               prevote_Round = 0\<rparr>, spv_Signatory = 2\<rparr>)))"
  by (simp add: eval_defs Transition_m_def checkCommonExitConditions_def blockCommit_def)

subsection \<open>The common exit: skipping to a later prevoting round\<close>

text \<open>
  Claim C7. When the commit builder gives no commit with a block at the machine's height
  and the polka builder reports a round R' greater than the machine's round,
  checkCommonExitConditions sets the round to R' and returns what preVote(nil) returns
  there. State, height and the builders are unchanged, and so are lockedRound and
  lockedBlock unless preVote unlocks (lockedRound is set and the polka builder gives a
  polka of a greater round).
\<close>

theorem checkCommonExitConditions_prevote_skip:
  assumes "\<forall>c. fst (queryCommit B m) = Some c \<longrightarrow> polka_Block (commit_Polka c) = None"
    and "snd (queryPolka B m) = Some r'" and "round_m m < r'"
  shows "checkCommonExitConditions B m = preVote B (m\<lparr>round_m := r'\<rparr>) None \<and>
         state (fst (checkCommonExitConditions B m)) = state m \<and>
         height (fst (checkCommonExitConditions B m)) = height m \<and>
         round_m (fst (checkCommonExitConditions B m)) = r' \<and>
         polkaBuilder (fst (checkCommonExitConditions B m)) = polkaBuilder m \<and>
         commitBuilder (fst (checkCommonExitConditions B m)) = commitBuilder m \<and>
         (\<not> (\<exists>lr p. lockedRound m = Some lr \<and> fst (queryPolka B m) = Some p \<and>
                    lr < polka_Round p) \<longrightarrow>
            lockedRound (fst (checkCommonExitConditions B m)) = lockedRound m \<and>
            lockedBlock (fst (checkCommonExitConditions B m)) = lockedBlock m)"
proof -
  from assms(1) have nc: "blockCommit (fst (queryCommit B m)) = None"
    by (auto simp: blockCommit_def split: option.splits)
  from assms(2,3) have lr: "laterRound (snd (queryPolka B m)) (round_m m) = Some r'"
    by (simp add: laterRound_def)
  have eq: "checkCommonExitConditions B m = preVote B (m\<lparr>round_m := r'\<rparr>) None"
    using nc lr by (cases "queryCommit B m") (simp add: checkCommonExitConditions_def)
  have q: "queryPolka B (m\<lparr>round_m := r'\<rparr>) = queryPolka B m"
    by (simp add: queryPolka_def)
  show ?thesis
    unfolding eq
    by (auto simp: preVote_def unlocks_def q Let_def split: option.splits)
qed

theorem checkCommonExitConditions_prevote_skip_witness:
  "checkCommonExitConditions scripted
     ((NewMachine WaitingForCommit
         \<lparr>isNewPreVote = True, polkaFound = Some (Some (blockB 0), 0), preVotingRound = Some 4\<rparr>
         \<lparr>isNewPreCommit = True, commitFound = Some (None, 1), preCommittingRound = Some 6\<rparr> 3)
        \<lparr>round_m := 1, lockedRound := Some 0, lockedBlock := Some (blockB 0)\<rparr>)
   = ((NewMachine WaitingForCommit
         \<lparr>isNewPreVote = True, polkaFound = Some (Some (blockB 0), 0), preVotingRound = Some 4\<rparr>
         \<lparr>isNewPreCommit = True, commitFound = Some (None, 1), preCommittingRound = Some 6\<rparr> 3)
        \<lparr>round_m := 4, lockedRound := Some 0, lockedBlock := Some (blockB 0)\<rparr>,
      Some (PreVote \<lparr>prevote_Block = Some (blockB 0), prevote_Height = 0,
                      prevote_Round = 4\<rparr>))"
proof -
  let ?pa = "\<lparr>isNewPreVote = True, polkaFound = Some (Some (blockB 0), 0),
              preVotingRound = Some 4\<rparr>"
  let ?ca = "\<lparr>isNewPreCommit = True, commitFound = Some (None, 1),
              preCommittingRound = Some 6\<rparr>"
  let ?ma = "(NewMachine WaitingForCommit ?pa ?ca 3)
               \<lparr>round_m := 1, lockedRound := Some 0, lockedBlock := Some (blockB 0)\<rparr>"
  have h1: "\<forall>c. fst (queryCommit scripted ?ma) = Some c \<longrightarrow> polka_Block (commit_Polka c) = None"
    by (simp add: eval_defs)
  have h2: "snd (queryPolka scripted ?ma) = Some 4" by (simp add: eval_defs)
  have h3: "round_m ?ma < 4" by (simp add: NewMachine_def)
  have h4: "\<not> (\<exists>lr p. lockedRound ?ma = Some lr \<and> fst (queryPolka scripted ?ma) = Some p \<and>
                      lr < polka_Round p)"
    by (simp add: eval_defs)
  note r = checkCommonExitConditions_prevote_skip [OF h1 h2 h3]
  from r have eq: "checkCommonExitConditions scripted ?ma
                     = preVote scripted (?ma\<lparr>round_m := 4\<rparr>) None"
    by blast
  from r h4 have lk:
    "lockedRound (fst (checkCommonExitConditions scripted ?ma)) = lockedRound ?ma \<and>
     lockedBlock (fst (checkCommonExitConditions scripted ?ma)) = lockedBlock ?ma"
    by blast
  show ?thesis
    using lk unfolding eq by (simp add: eval_defs preVote_def unlocks_def)
qed

subsection \<open>WaitingForPropose\<close>

text \<open>
  Claim C8. In WaitingForPropose, Transition on Proposed(sb) sets the state to
  WaitingForPolka and returns what preVote(sb) returns, and on TimedOut it sets the state to
  WaitingForPolka and returns what preVote(nil) returns. In both cases the machine is
  afterwards in WaitingForPolka with height, round and both builders unchanged.
\<close>

theorem waitForPropose_proposed_timedout:
  assumes "state m = WaitingForPropose" and "lockCoupled m"
  shows "Transition_m B m (Proposed sb) = Inr (preVote B (m\<lparr>state := WaitingForPolka\<rparr>) sb) \<and>
         Transition_m B m TimedOut = Inr (preVote B (m\<lparr>state := WaitingForPolka\<rparr>) None) \<and>
         (\<forall>t m' a. (t = Proposed sb \<or> t = TimedOut) \<and> Transition_m B m t = Inr (m', a) \<longrightarrow>
            state m' = WaitingForPolka \<and> height m' = height m \<and> round_m m' = round_m m \<and>
            polkaBuilder m' = polkaBuilder m \<and> commitBuilder m' = commitBuilder m)"
  using assms
  by (auto simp: Transition_m_dispatch preVote_def Let_def split: if_splits option.splits)

theorem waitForPropose_proposed_timedout_witness:
  "Transition_m scripted
     ((NewMachine WaitingForPropose
         \<lparr>isNewPreVote = True, polkaFound = None, preVotingRound = None\<rparr>
         \<lparr>isNewPreCommit = True, commitFound = None, preCommittingRound = None\<rparr> 3)
        \<lparr>height := 2, round_m := 1\<rparr>)
     (Proposed (Some (blockB 2)))
   = Inr ((NewMachine WaitingForPolka
             \<lparr>isNewPreVote = True, polkaFound = None, preVotingRound = None\<rparr>
             \<lparr>isNewPreCommit = True, commitFound = None, preCommittingRound = None\<rparr> 3)
            \<lparr>height := 2, round_m := 1\<rparr>,
          Some (PreVote \<lparr>prevote_Block = Some (blockB 2), prevote_Height = 2,
                          prevote_Round = 1\<rparr>)) \<and>
   Transition_m scripted
     ((NewMachine WaitingForPropose
         \<lparr>isNewPreVote = True, polkaFound = None, preVotingRound = None\<rparr>
         \<lparr>isNewPreCommit = True, commitFound = None, preCommittingRound = None\<rparr> 3)
        \<lparr>height := 2, round_m := 1\<rparr>)
     TimedOut
   = Inr ((NewMachine WaitingForPolka
             \<lparr>isNewPreVote = True, polkaFound = None, preVotingRound = None\<rparr>
             \<lparr>isNewPreCommit = True, commitFound = None, preCommittingRound = None\<rparr> 3)
            \<lparr>height := 2, round_m := 1\<rparr>,
          Some (PreVote \<lparr>prevote_Block = None, prevote_Height = 2, prevote_Round = 1\<rparr>))"
proof -
  let ?pz = "\<lparr>isNewPreVote = True, polkaFound = None, preVotingRound = None\<rparr>"
  let ?cz = "\<lparr>isNewPreCommit = True, commitFound = None, preCommittingRound = None\<rparr>"
  let ?ma = "(NewMachine WaitingForPropose ?pz ?cz 3)\<lparr>height := 2, round_m := 1\<rparr>"
  have h1: "state ?ma = WaitingForPropose" by (simp add: NewMachine_def)
  have h2: "lockCoupled ?ma" by (simp add: NewMachine_def lockCoupled_def)
  note r = waitForPropose_proposed_timedout [OF h1 h2, of scripted "Some (blockB 2)"]
  from r have p: "Transition_m scripted ?ma (Proposed (Some (blockB 2)))
                    = Inr (preVote scripted (?ma\<lparr>state := WaitingForPolka\<rparr>) (Some (blockB 2)))"
    by blast
  from r have t: "Transition_m scripted ?ma TimedOut
                    = Inr (preVote scripted (?ma\<lparr>state := WaitingForPolka\<rparr>) None)"
    by blast
  show ?thesis
    unfolding p t by (simp add: eval_defs preVote_def unlocks_def)
qed

subsection \<open>No panic\<close>

text \<open>
  Claim C9. If the machine's state is one of WaitingForPropose, WaitingForPolka and
  WaitingForCommit, lockedRound is set exactly when lockedBlock is set, and the transition
  is one of Proposed, PreVoted, PreCommitted and TimedOut, then Transition returns a
  machine and an optional action: none of its panics is reached.
\<close>

theorem Transition_no_panic:
  assumes "state m \<noteq> UnknownState" and "lockCoupled m" and "t \<noteq> UnknownTransition"
  shows "\<exists>m' a. Transition_m B m t = Inr (m', a)"
proof -
  have p: "\<exists>m' a. waitForPropose B m t = Inr (m', a)"
    using assms(3) by (cases t) (auto intro: prod.exhaust)
  have q: "\<exists>m' a. waitForPolka B m t = Inr (m', a)"
    using assms(3) by (cases t) (auto split: prod.splits option.splits intro: prod.exhaust)
  have r: "\<exists>m' a. waitForCommit B m t = Inr (m', a)"
    using assms(3) by (cases t) (auto split: prod.splits option.splits intro: prod.exhaust)
  show ?thesis
    using assms(1,2) p q r by (cases "state m") (simp_all add: Transition_m_dispatch)
qed

theorem Transition_no_panic_witness:
  "\<exists>m' a. Transition_m scripted
     ((NewMachine WaitingForPolka
         \<lparr>isNewPreVote = True, polkaFound = Some (Some (blockB 0), 0), preVotingRound = Some 0\<rparr>
         \<lparr>isNewPreCommit = True, commitFound = None, preCommittingRound = None\<rparr> 3)
        \<lparr>lockedRound := Some 0, lockedBlock := Some (blockB 0)\<rparr>)
     (PreCommitted \<lparr>spc_PreCommit = \<lparr>precommit_Polka = polkaAt 0 (Some (blockB 0), 0)\<rparr>,
                    spc_Signatory = 4\<rparr>)
   = Inr (m', a)"
proof -
  let ?ma = "(NewMachine WaitingForPolka
         \<lparr>isNewPreVote = True, polkaFound = Some (Some (blockB 0), 0), preVotingRound = Some 0\<rparr>
         \<lparr>isNewPreCommit = True, commitFound = None, preCommittingRound = None\<rparr> 3)
        \<lparr>lockedRound := Some 0, lockedBlock := Some (blockB 0)\<rparr>"
  let ?t = "PreCommitted \<lparr>spc_PreCommit = \<lparr>precommit_Polka = polkaAt 0 (Some (blockB 0), 0)\<rparr>,
                    spc_Signatory = 4\<rparr>"
  have h1: "state ?ma \<noteq> UnknownState" by (simp add: NewMachine_def)
  have h2: "lockCoupled ?ma" by (simp add: NewMachine_def lockCoupled_def)
  have h3: "?t \<noteq> UnknownTransition" by simp
  from Transition_no_panic [OF h1 h2 h3] show ?thesis .
qed

subsection \<open>Height and round never go back\<close>

lemma scripted_commit_height:
  "\<forall>cb h n c r. commitBuilder_Commit scripted cb h n = (Some c, r)
     \<longrightarrow> polka_Height (commit_Polka c) = h"
  by (auto simp: scripted_def commitAt_def polkaAt_def)

lemma below_successor: "w \<noteq> - 1 \<Longrightarrow> w < w + 1"
  for w :: "64 word"
  using inc_less_eq_self_iff_eq [of w] by (simp add: not_le)

lemma preVote_position:
  "height (fst (preVote B m pb)) = height m \<and> round_m (fst (preVote B m pb)) = round_m m"
  by (simp add: preVote_def Let_def split: option.splits)

lemma preCommit_position:
  "height (fst (preCommit B m)) = height m \<and> round_m (fst (preCommit B m)) = round_m m"
  by (simp add: preCommit_def split: option.splits)

lemma laterRound_Some: "laterRound r current = Some r' \<Longrightarrow> current < r'"
  by (auto simp: laterRound_def split: option.splits if_splits)

lemma blockCommit_Some: "blockCommit c = Some c' \<Longrightarrow> c = Some c'"
  by (auto simp: blockCommit_def split: option.splits if_splits)

lemma notBefore_shift:
  "height m1 = height m \<Longrightarrow> round_m m1 = round_m m \<Longrightarrow> notBefore m1 m' \<Longrightarrow> notBefore m m'"
  by (simp add: notBefore_def)

lemma notBefore_same:
  "height m' = height m \<Longrightarrow> round_m m \<le> round_m m' \<Longrightarrow> notBefore m m'"
  by (auto simp: notBefore_def)

lemma checkCommon_notBefore:
  assumes "\<forall>c r. queryCommit B m = (Some c, r) \<longrightarrow> polka_Height (commit_Polka c) = height m"
    and top: "height m \<noteq> - 1"
  shows "notBefore m (fst (checkCommonExitConditions B m))"
proof -
  obtain commit r where q: "queryCommit B m = (commit, r)"
    by (cases "queryCommit B m")
  show ?thesis
  proof (cases "blockCommit commit")
    case (Some c)
    with q assms(1) blockCommit_Some [OF Some] have "polka_Height (commit_Polka c) = height m"
      by simp
    with q Some below_successor [OF top] show ?thesis
      by (simp add: checkCommonExitConditions_def notBefore_def)
  next
    case None
    show ?thesis
    proof (cases "laterRound (snd (queryPolka B m)) (round_m m)")
      case (Some r')
      from laterRound_Some [OF Some] have "round_m m \<le> r'"
        by (rule less_imp_le)
      with q None Some show ?thesis
        by (simp add: checkCommonExitConditions_def notBefore_same preVote_position)
    next
      case nopv: None
      show ?thesis
      proof (cases "laterRound r (round_m m)")
        case (Some r')
        from laterRound_Some [OF Some] have "round_m m \<le> r'"
          by (rule less_imp_le)
        with q None nopv Some show ?thesis
          by (simp add: checkCommonExitConditions_def notBefore_same preCommit_position)
      next
        case nopc: None
        with q None nopv show ?thesis
          by (simp add: checkCommonExitConditions_def notBefore_same)
      qed
    qed
  qed
qed

lemma insertPreVote_frame:
  "insertPreVote B m v = (isNew, m1) \<Longrightarrow>
     height m1 = height m \<and> round_m m1 = round_m m \<and> commitBuilder m1 = commitBuilder m \<and>
     consensusThreshold m1 = consensusThreshold m \<and> state m1 = state m"
  by (auto simp: insertPreVote_def split: prod.splits)

lemma insertPreCommit_frame:
  "insertPreCommit B m v = (isNew, m1) \<Longrightarrow>
     height m1 = height m \<and> round_m m1 = round_m m \<and> polkaBuilder m1 = polkaBuilder m \<and>
     consensusThreshold m1 = consensusThreshold m \<and> state m1 = state m"
  by (auto simp: insertPreCommit_def split: prod.splits)

lemma checkCommon_after:
  assumes hs: "\<forall>cb h n c r. commitBuilder_Commit B cb h n = (Some c, r)
                   \<longrightarrow> polka_Height (commit_Polka c) = h"
    and top: "height m \<noteq> - 1"
    and "height m1 = height m" and "round_m m1 = round_m m"
  shows "notBefore m (fst (checkCommonExitConditions B m1))"
proof -
  from hs have "\<forall>c r. queryCommit B m1 = (Some c, r)
                 \<longrightarrow> polka_Height (commit_Polka c) = height m1"
    by (simp add: queryCommit_def)
  moreover from top assms(3) have "height m1 \<noteq> - 1" by simp
  ultimately have "notBefore m1 (fst (checkCommonExitConditions B m1))"
    by (rule checkCommon_notBefore)
  with assms(3,4) show ?thesis
    by (rule notBefore_shift)
qed

lemma waitForPropose_notBefore:
  assumes hs: "\<forall>cb h n c r. commitBuilder_Commit B cb h n = (Some c, r)
                   \<longrightarrow> polka_Height (commit_Polka c) = h"
    and top: "height m \<noteq> - 1"
    and "waitForPropose B m t = Inr (m', a)"
  shows "notBefore m m'"
proof (cases t)
  case (Proposed sb)
  with assms(3) preVote_position [of B "m\<lparr>state := WaitingForPolka\<rparr>" sb] show ?thesis
    by (auto intro!: notBefore_same)
next
  case (PreVoted v)
  obtain isNew m1 where ins: "insertPreVote B m v = (isNew, m1)"
    by (cases "insertPreVote B m v")
  from insertPreVote_frame [OF ins] checkCommon_after [OF hs top, of m1] PreVoted assms(3) ins
  show ?thesis by auto
next
  case (PreCommitted v)
  obtain isNew m1 where ins: "insertPreCommit B m v = (isNew, m1)"
    by (cases "insertPreCommit B m v")
  from insertPreCommit_frame [OF ins] checkCommon_after [OF hs top, of m1] PreCommitted
    assms(3) ins
  show ?thesis by auto
next
  case TimedOut
  with assms(3) preVote_position [of B "m\<lparr>state := WaitingForPolka\<rparr>" None] show ?thesis
    by (auto intro!: notBefore_same)
next
  case UnknownTransition
  with assms(3) show ?thesis by simp
qed

lemma waitForPolka_notBefore:
  assumes hs: "\<forall>cb h n c r. commitBuilder_Commit B cb h n = (Some c, r)
                   \<longrightarrow> polka_Height (commit_Polka c) = h"
    and top: "height m \<noteq> - 1"
    and "waitForPolka B m t = Inr (m', a)"
  shows "notBefore m m'"
proof (cases t)
  case (Proposed sb)
  with assms(3) checkCommon_after [OF hs top, of m] show ?thesis by auto
next
  case (PreVoted v)
  obtain isNew m1 where ins: "insertPreVote B m v = (isNew, m1)"
    by (cases "insertPreVote B m v")
  from insertPreVote_frame [OF ins] checkCommon_after [OF hs top, of m1] PreVoted assms(3) ins
    preCommit_position [of B "m1\<lparr>state := WaitingForCommit\<rparr>"]
  show ?thesis by (auto split: if_splits intro!: notBefore_same)
next
  case (PreCommitted v)
  obtain isNew m1 where ins: "insertPreCommit B m v = (isNew, m1)"
    by (cases "insertPreCommit B m v")
  from insertPreCommit_frame [OF ins] checkCommon_after [OF hs top, of m1] PreCommitted
    assms(3) ins
  show ?thesis by (auto split: if_splits intro!: notBefore_same)
next
  case TimedOut
  with assms(3) preCommit_position [of B "m\<lparr>state := WaitingForCommit\<rparr>"] show ?thesis
    by (auto split: option.splits intro!: notBefore_same)
next
  case UnknownTransition
  with assms(3) show ?thesis by simp
qed

lemma advanceRound_position:
  "height (fst (advanceRound m)) = height m \<and> round_m (fst (advanceRound m)) = round_m m + 1"
  by (simp add: advanceRound_def Let_def)

lemma advanceRound_notBefore:
  assumes "round_m m1 \<noteq> - 1" and "height m1 = height m" and "round_m m1 = round_m m"
  shows "notBefore m (fst (advanceRound m1))"
proof -
  from below_successor [OF assms(1)] have "round_m m1 \<le> round_m m1 + 1"
    by (rule less_imp_le)
  with assms(2,3) advanceRound_position [of m1] show ?thesis
    by (simp add: notBefore_same)
qed

lemma waitForCommit_notBefore:
  assumes hs: "\<forall>cb h n c r. commitBuilder_Commit B cb h n = (Some c, r)
                   \<longrightarrow> polka_Height (commit_Polka c) = h"
    and top: "height m \<noteq> - 1" and last: "round_m m \<noteq> - 1"
    and "waitForCommit B m t = Inr (m', a)"
  shows "notBefore m m'"
proof (cases t)
  case (Proposed sb)
  with assms(4) checkCommon_after [OF hs top, of m] show ?thesis by auto
next
  case (PreVoted v)
  obtain isNew m1 where ins: "insertPreVote B m v = (isNew, m1)"
    by (cases "insertPreVote B m v")
  from insertPreVote_frame [OF ins] checkCommon_after [OF hs top, of m1] PreVoted assms(4) ins
  show ?thesis by auto
next
  case (PreCommitted v)
  obtain isNew m1 where ins: "insertPreCommit B m v = (isNew, m1)"
    by (cases "insertPreCommit B m v")
  note fr = insertPreCommit_frame [OF ins]
  from fr last have "round_m m1 \<noteq> - 1" by simp
  from advanceRound_notBefore [OF this, of m] fr
  have adv: "notBefore m (fst (advanceRound m1))" by simp
  from fr checkCommon_after [OF hs top, of m1] adv PreCommitted assms(4) ins
  show ?thesis by (auto split: if_splits intro!: notBefore_same)
next
  case TimedOut
  with assms(4) advanceRound_notBefore [OF last, of m] show ?thesis
    by (auto split: option.splits intro!: notBefore_same)
next
  case UnknownTransition
  with assms(4) show ?thesis by simp
qed

text \<open>
  Claim C10, as amended. Suppose the commit builder only gives commits whose polka is at
  the height it was asked for, and the machine's height and round are both below the
  largest 64-bit value, so that height + 1 and round + 1 do not wrap around. Then across
  any Transition call that returns, the height does not decrease; if the height is
  unchanged the round does not decrease; and the round becomes smaller, in particular
  goes from a non-zero value back to 0, only in a call in which the height increases. (No
  assumption on the polka builder is needed.)
\<close>

theorem Transition_height_round_monotone:
  assumes "\<forall>cb h n c r. commitBuilder_Commit B cb h n = (Some c, r)
               \<longrightarrow> polka_Height (commit_Polka c) = h"
    and "height m \<noteq> - 1" and "round_m m \<noteq> - 1"
    and "Transition_m B m t = Inr (m', a)"
  shows "height m \<le> height m' \<and>
         (height m' = height m \<longrightarrow> round_m m \<le> round_m m') \<and>
         (round_m m' < round_m m \<longrightarrow> height m < height m' \<and> round_m m' = 0) \<and>
         (round_m m \<noteq> 0 \<and> round_m m' = 0 \<longrightarrow> height m < height m')"
proof -
  have "notBefore m m'"
    using assms(4) waitForPropose_notBefore [OF assms(1,2)]
      waitForPolka_notBefore [OF assms(1,2)] waitForCommit_notBefore [OF assms(1,2,3)]
    by (auto simp: Transition_m_def split: if_splits State.splits)
  then show ?thesis
    by (auto simp: notBefore_def word_neq_0_conv)
qed

theorem Transition_height_round_monotone_witness:
  "Transition_m scripted
     ((NewMachine WaitingForCommit
         \<lparr>isNewPreVote = True, polkaFound = Some (Some (blockB 5), 2), preVotingRound = Some 2\<rparr>
         \<lparr>isNewPreCommit = True, commitFound = Some (Some (blockB 5), 2),
          preCommittingRound = Some 2\<rparr> 3)
        \<lparr>height := 5, round_m := 2, lockedRound := Some 2, lockedBlock := Some (blockB 5)\<rparr>)
     (PreCommitted \<lparr>spc_PreCommit = \<lparr>precommit_Polka = polkaAt 5 (Some (blockB 5), 2)\<rparr>,
                    spc_Signatory = 4\<rparr>)
   = Inr ((NewMachine WaitingForPropose
             \<lparr>isNewPreVote = True, polkaFound = Some (Some (blockB 5), 2),
              preVotingRound = Some 2\<rparr>
             \<lparr>isNewPreCommit = True, commitFound = Some (Some (blockB 5), 2),
              preCommittingRound = Some 2\<rparr> 3)
            \<lparr>height := 6\<rparr>,
          Some (Commit (commitAt 5 (Some (blockB 5), 2)))) \<and>
   (5::Height) \<noteq> - 1 \<and> (2::Round) \<noteq> - 1 \<and>
   (5::Height) \<le> 6 \<and> (0::Round) < 2 \<and> (5::Height) < 6"
proof -
  let ?pa = "\<lparr>isNewPreVote = True, polkaFound = Some (Some (blockB 5), 2),
              preVotingRound = Some 2\<rparr>"
  let ?ca = "\<lparr>isNewPreCommit = True, commitFound = Some (Some (blockB 5), 2),
              preCommittingRound = Some 2\<rparr>"
  let ?ma = "(NewMachine WaitingForCommit ?pa ?ca 3)
        \<lparr>height := 5, round_m := 2, lockedRound := Some 2, lockedBlock := Some (blockB 5)\<rparr>"
  let ?mb = "(NewMachine WaitingForPropose ?pa ?ca 3)\<lparr>height := 6\<rparr>"
  let ?t = "PreCommitted \<lparr>spc_PreCommit = \<lparr>precommit_Polka = polkaAt 5 (Some (blockB 5), 2)\<rparr>,
                    spc_Signatory = 4\<rparr>"
  have h2: "height ?ma \<noteq> - 1" by (simp add: NewMachine_def)
  have h3: "round_m ?ma \<noteq> - 1" by (simp add: NewMachine_def)
  have h4: "Transition_m scripted ?ma ?t = Inr (?mb, Some (Commit (commitAt 5 (Some (blockB 5), 2))))"
    by (simp add: eval_defs Transition_m_def nilCommitAtRound_def checkCommonExitConditions_def
        blockCommit_def)
  from Transition_height_round_monotone [OF scripted_commit_height h2 h3 h4]
  have "height ?ma \<le> height ?mb \<and> (round_m ?mb < round_m ?ma \<longrightarrow> height ?ma < height ?mb)"
    by blast
  with h2 h3 h4 show ?thesis by (simp add: NewMachine_def)
qed

text \<open>
  Claim C10 as stated fails where the addition wraps around. The scripted builder gives
  its commits at the height it is asked for (\<open>scripted_commit_height\<close>). First run: a
  machine waits for a commit at height 7 in the largest round, some round has enough
  precommits, and the round times out; \<open>machine.round++\<close> wraps, so the machine is left at
  height 7 in round 0, a smaller round at the same height. Second run: a machine at the
  largest height commits a block; \<open>commit.Polka.Height + 1\<close> wraps, so the machine is
  left at height 0, a smaller height.
\<close>

theorem Transition_wraps_counterexample:
  "Transition_m scripted
     ((NewMachine WaitingForCommit
         \<lparr>isNewPreVote = True, polkaFound = None, preVotingRound = None\<rparr>
         \<lparr>isNewPreCommit = True, commitFound = None, preCommittingRound = Some 0\<rparr> 3)
        \<lparr>height := 7, round_m := - 1\<rparr>)
     TimedOut
   = Inr ((NewMachine WaitingForPropose
             \<lparr>isNewPreVote = True, polkaFound = None, preVotingRound = None\<rparr>
             \<lparr>isNewPreCommit = True, commitFound = None, preCommittingRound = Some 0\<rparr> 3)
            \<lparr>height := 7, round_m := 0\<rparr>,
          Some (Commit (commitAt 7 (None, 0)))) \<and>
   (0::Round) < - 1 \<and>
   Transition_m scripted
     ((NewMachine WaitingForPropose
         \<lparr>isNewPreVote = True, polkaFound = None, preVotingRound = None\<rparr>
         \<lparr>isNewPreCommit = True, commitFound = Some (Some (blockB (- 1)), 0),
          preCommittingRound = Some 0\<rparr> 3)
        \<lparr>height := - 1\<rparr>)
     (PreCommitted \<lparr>spc_PreCommit = \<lparr>precommit_Polka = polkaAt (- 1) (Some (blockB (- 1)), 0)\<rparr>,
                    spc_Signatory = 4\<rparr>)
   = Inr ((NewMachine WaitingForPropose
             \<lparr>isNewPreVote = True, polkaFound = None, preVotingRound = None\<rparr>
             \<lparr>isNewPreCommit = True, commitFound = Some (Some (blockB (- 1)), 0),
              preCommittingRound = Some 0\<rparr> 3)
            \<lparr>height := 0\<rparr>,
          Some (Commit (commitAt (- 1) (Some (blockB (- 1)), 0)))) \<and>
   (0::Height) < - 1"
  by (simp add: eval_defs Transition_m_def advanceRound_def emptyPolka_def Let_def
      checkCommonExitConditions_def blockCommit_def word_gt_0)

end
